theory Spec2Isabelle
  imports Main "HOL-Library.Word"
begin

unbundle bit_operations_syntax

section \<open>JavaScript values used by server.js\<close>

text \<open>
  A JavaScript string is a sequence of UTF-16 code units; \<open>s.length\<close> counts code units.
  The Authorization header and the configured API key are modelled this way, because
  \<open>authenticateAPIKey\<close> measures them both in code units (\<open>.length\<close>) and in UTF-8 bytes
  (\<open>Buffer.from\<close>).  Texts that the server only passes along or searches (error messages,
  file names, paths, MIME types) are modelled as HOL strings.
\<close>

type_synonym js_string = "16 word list"
type_synonym bytes = "8 word list"

definition ascii :: "string \<Rightarrow> js_string" where
  "ascii s = map (\<lambda>c. of_nat (of_char c)) s"

text \<open>\<open>s.startsWith(p)\<close> and \<open>s.substring(n)\<close>, on any kind of string.\<close>

definition startsWith :: "'a list \<Rightarrow> 'a list \<Rightarrow> bool" where
  "startsWith s p = (take (length p) s = p)"

definition substring :: "'a list \<Rightarrow> nat \<Rightarrow> 'a list" where
  "substring s n = drop n s"

text \<open>\<open>s.includes(p)\<close>: \<open>p\<close> occurs in \<open>s\<close> as a contiguous run.\<close>

fun includes_str :: "'a list \<Rightarrow> 'a list \<Rightarrow> bool" where
  "includes_str [] p = (p = [])"
| "includes_str (c # cs) p = (startsWith (c # cs) p \<or> includes_str cs p)"

text \<open>
  \<open>Buffer.from(s)\<close> encodes a string as UTF-8: one byte below U+0080, two below U+0800,
  four for a surrogate pair, three otherwise; a surrogate without its partner is replaced
  by U+FFFD (EF BF BD).
\<close>

definition is_high_surrogate :: "16 word \<Rightarrow> bool" where
  "is_high_surrogate c = (0xD800 \<le> c \<and> c < 0xDC00)"

definition is_low_surrogate :: "16 word \<Rightarrow> bool" where
  "is_low_surrogate c = (0xDC00 \<le> c \<and> c < 0xE000)"

definition utf8_2 :: "16 word \<Rightarrow> bytes" where
  "utf8_2 c = [0xC0 OR ucast (drop_bit 6 c), 0x80 OR ucast (c AND 0x3F)]"

definition utf8_3 :: "16 word \<Rightarrow> bytes" where
  "utf8_3 c = [0xE0 OR ucast (drop_bit 12 c), 0x80 OR ucast (drop_bit 6 c AND 0x3F),
               0x80 OR ucast (c AND 0x3F)]"

definition utf8_4 :: "16 word \<Rightarrow> 16 word \<Rightarrow> bytes" where
  "utf8_4 hi lo =
     (let cp = (0x10000 :: 32 word) + push_bit 10 (ucast (hi AND 0x3FF)) + ucast (lo AND 0x3FF)
      in [0xF0 OR ucast (drop_bit 18 cp), 0x80 OR ucast (drop_bit 12 cp AND 0x3F),
          0x80 OR ucast (drop_bit 6 cp AND 0x3F), 0x80 OR ucast (cp AND 0x3F)])"

definition replacement_char :: bytes where
  "replacement_char = [0xEF, 0xBF, 0xBD]"

fun Buffer_from :: "js_string \<Rightarrow> bytes" where
  "Buffer_from [] = []"
| "Buffer_from [c] =
     (if c < 0x80 then [ucast c]
      else if c < 0x800 then utf8_2 c
      else if is_high_surrogate c \<or> is_low_surrogate c then replacement_char
      else utf8_3 c)"
| "Buffer_from (c # d # ds) =
     (if c < 0x80 then ucast c # Buffer_from (d # ds)
      else if c < 0x800 then utf8_2 c @ Buffer_from (d # ds)
      else if is_high_surrogate c \<and> is_low_surrogate d then utf8_4 c d @ Buffer_from ds
      else if is_high_surrogate c \<or> is_low_surrogate c then replacement_char @ Buffer_from (d # ds)
      else utf8_3 c @ Buffer_from (d # ds))"

text \<open>A thrown JavaScript \<open>Error\<close>: its optional \<open>code\<close> property and its \<open>message\<close>.\<close>

record js_error =
  err_code :: "string option"
  err_message :: string

definition Error :: "string \<Rightarrow> js_error" where
  "Error m = \<lparr>err_code = None, err_message = m\<rparr>"

text \<open>
  \<open>crypto.timingSafeEqual(a, b)\<close> throws a RangeError when the two buffers differ in
  byte length, and otherwise tells whether they hold the same bytes.
\<close>

definition timingSafeEqual :: "bytes \<Rightarrow> bytes \<Rightarrow> js_error + bool" where
  "timingSafeEqual a b =
     (if length a \<noteq> length b
      then Inl \<lparr>err_code = Some ''ERR_CRYPTO_TIMING_SAFE_EQUAL_LENGTH'',
                err_message = ''Input buffers must have the same byte length''\<rparr>
      else Inr (a = b))"

text \<open>JSON bodies passed to \<open>res.json\<close>.\<close>

datatype json =
    JString string
  | JNumber nat
  | JBool bool
  | JObject "(string \<times> json) list"

record response =
  status :: nat
  body :: json

section \<open>Configuration\<close>

record config =
  port :: nat
  apiKey :: js_string
  uploadDir :: string
  baseUrl :: string

text \<open>The startup validation: the process exits unless the key has at least 32 code units.\<close>

definition startup_ok :: "config \<Rightarrow> bool" where
  "startup_ok cfg = (\<not> (apiKey cfg = [] \<or> length (apiKey cfg) < 32))"

section \<open>authenticateAPIKey\<close>

datatype auth_result = Responded response | Next | Threw js_error

definition unauthorized :: response where
  "unauthorized = \<lparr>status = 401, body = JObject
     [(''error'', JString ''Missing or invalid authorization header''),
      (''message'', JString ''Authorization header must be in format: Bearer YOUR_API_KEY'')]\<rparr>"

definition forbidden :: response where
  "forbidden = \<lparr>status = 403, body = JObject [(''error'', JString ''Invalid API key'')]\<rparr>"

definition authenticateAPIKey :: "config \<Rightarrow> js_string option \<Rightarrow> auth_result" where
  "authenticateAPIKey cfg authHeader =
     (case authHeader of
        None \<Rightarrow> Responded unauthorized
      | Some h \<Rightarrow>
          if h = [] \<or> \<not> startsWith h (ascii ''Bearer '') then Responded unauthorized
          else
            let token = substring h 7;
                expectedKey = apiKey cfg
            in if length token \<noteq> length expectedKey then Responded forbidden
               else (case timingSafeEqual (Buffer_from token) (Buffer_from expectedKey) of
                       Inl e \<Rightarrow> Threw e
                     | Inr same \<Rightarrow> if \<not> same then Responded forbidden else Next))"

text \<open>
  The global error handler, which Express runs when a middleware throws.
\<close>

definition global_error_handler :: "js_error \<Rightarrow> response" where
  "global_error_handler err =
     \<lparr>status = 500, body = JObject [(''error'', JString ''Internal server error'')]\<rparr>"

section \<open>generateSafeFilename\<close>

text \<open>
  \<open>Date.now()\<close> is the number of milliseconds since the Unix epoch, a natural number on a
  clock set at or after 1970; a template literal prints it in decimal.
\<close>

definition digit_char :: "nat \<Rightarrow> char" where
  "digit_char n = char_of (48 + n)"

function number_toString :: "nat \<Rightarrow> string" where
  "number_toString n =
     (if n < 10 then [digit_char n] else number_toString (n div 10) @ [digit_char (n mod 10)])"
  by pat_completeness auto
termination
  by (relation "measure id") auto

declare number_toString.simps [simp del]

text \<open>
  \<open>crypto.randomBytes(n)\<close> draws \<open>n\<close> bytes from the operating system's
  cryptographically secure generator, here an unbounded supply of bytes that the
  environment hands over.
\<close>

definition randomBytes :: "(nat \<Rightarrow> 8 word) \<Rightarrow> nat \<Rightarrow> bytes" where
  "randomBytes source n = map source [0..<n]"

text \<open>\<open>buf.toString('hex')\<close>: two lowercase hexadecimal digits for each byte.\<close>

definition hex_char :: "nat \<Rightarrow> char" where
  "hex_char n = (if n < 10 then char_of (48 + n) else char_of (87 + n))"

definition byte_hex :: "8 word \<Rightarrow> string" where
  "byte_hex b = [hex_char (unat b div 16), hex_char (unat b mod 16)]"

definition toString_hex :: "bytes \<Rightarrow> string" where
  "toString_hex bs = concat (map byte_hex bs)"

definition generateSafeFilename :: "nat \<Rightarrow> (nat \<Rightarrow> 8 word) \<Rightarrow> string" where
  "generateSafeFilename timestamp source =
     (let randomHash = toString_hex (randomBytes source 8)
      in number_toString timestamp @ ''-'' @ randomHash @ ''.webp'')"

text \<open>
  The pattern \<open>^\d+-[0-9a-f]{16}\.webp$\<close> of the specification, as a matcher: the longest
  run of decimal digits, which must not be empty, then a hyphen, sixteen lowercase
  hexadecimal digits and the suffix, with nothing after it.
\<close>

definition is_digit :: "char \<Rightarrow> bool" where
  "is_digit c = (48 \<le> (of_char c :: nat) \<and> (of_char c :: nat) \<le> 57)"

definition is_lower_hex :: "char \<Rightarrow> bool" where
  "is_lower_hex c = (is_digit c \<or> (97 \<le> (of_char c :: nat) \<and> (of_char c :: nat) \<le> 102))"


section \<open>path.resolve\<close>

text \<open>
  Node's POSIX \<open>path.resolve\<close> joins its arguments from the right until one of them is
  absolute, falls back on the working directory, and normalises the result: empty
  segments and \<open>.\<close> disappear, \<open>..\<close> removes the segment before it and is dropped at the
  root.  The result has no trailing slash.
\<close>

fun split_slash :: "string \<Rightarrow> string list" where
  "split_slash [] = [[]]"
| "split_slash (c # cs) =
     (if c = CHR ''/'' then [] # split_slash cs
      else (case split_slash cs of [] \<Rightarrow> [[c]] | seg # segs \<Rightarrow> (c # seg) # segs))"

fun join_slash :: "string list \<Rightarrow> string" where
  "join_slash [] = []"
| "join_slash [seg] = seg"
| "join_slash (seg # seg2 # segs) = seg @ ''/'' @ join_slash (seg2 # segs)"

text \<open>One segment of \<open>normalizeString\<close>; the segments kept so far are held last first.\<close>

definition norm_step :: "bool \<Rightarrow> string list \<Rightarrow> string \<Rightarrow> string list" where
  "norm_step allowAboveRoot kept seg =
     (if seg = [] \<or> seg = ''.'' then kept
      else if seg = ''..'' then
        (case kept of
           [] \<Rightarrow> if allowAboveRoot then [''..''] else []
         | last_kept # below \<Rightarrow>
             if last_kept = ''..'' then (if allowAboveRoot then ''..'' # kept else kept) else below)
      else seg # kept)"

definition normalizeString :: "bool \<Rightarrow> string \<Rightarrow> string" where
  "normalizeString allowAboveRoot p =
     join_slash (rev (foldl (norm_step allowAboveRoot) [] (split_slash p)))"

text \<open>
  The loop of \<open>path.resolve\<close>: the arguments from the last to the first, then the working
  directory, until an absolute one has been prepended.
\<close>

fun resolve_args :: "string list \<Rightarrow> string \<Rightarrow> string \<times> bool" where
  "resolve_args [] resolvedPath = (resolvedPath, False)"
| "resolve_args (p # ps) resolvedPath =
     (if p = [] then resolve_args ps resolvedPath
      else if hd p = CHR ''/'' then (p @ ''/'' @ resolvedPath, True)
      else resolve_args ps (p @ ''/'' @ resolvedPath))"

definition path_resolve :: "string \<Rightarrow> string list \<Rightarrow> string" where
  "path_resolve cwd args =
     (case resolve_args (rev args @ [cwd]) [] of
        (resolvedPath, resolvedAbsolute) \<Rightarrow>
          let normalized = normalizeString (\<not> resolvedAbsolute) resolvedPath
          in if resolvedAbsolute then CHR ''/'' # normalized
             else if normalized \<noteq> [] then normalized else ''.'')"

text \<open>
  The directory component of a path, as Node's \<open>path.dirname\<close> computes it.  The server
  does not call it; the specification words the path check with it.
\<close>

definition path_dirname :: "string \<Rightarrow> string" where
  "path_dirname p =
     (if p = [] then ''.''
      else
        let hasRoot = (hd p = CHR ''/'');
            upto_slash = dropWhile (\<lambda>c. c \<noteq> CHR ''/'') (dropWhile (\<lambda>c. c = CHR ''/'') (rev (tl p)));
            end_ix = length upto_slash
        in if upto_slash = [] then (if hasRoot then ''/'' else ''.'')
           else if hasRoot \<and> end_ix = 1 then ''//''
           else take end_ix p)"


text \<open>A single path segment other than \<open>.\<close> and \<open>..\<close>.\<close>

definition plain_name :: "string \<Rightarrow> bool" where
  "plain_name fn = (fn \<noteq> [] \<and> CHR ''/'' \<notin> set fn \<and> fn \<noteq> ''.'' \<and> fn \<noteq> ''..'')"

definition absolute_path :: "string \<Rightarrow> bool" where
  "absolute_path p = (p \<noteq> [] \<and> hd p = CHR ''/'')"

section \<open>The upload decoder (multer)\<close>

text \<open>
  multer and sharp are libraries the server calls; their parts below follow their
  documentation, and what they decide from the bytes of a request is an input here.

  What sharp finds in an uploaded buffer.  Either it rejects the buffer when it opens it
  (\<open>Unreadable\<close>, with the error it throws), or it reads an image header: the format,
  the stored pixel size, the EXIF orientation if there is one, and the number of pages
  (frames).  The pixel data behind a readable header may still fail to decode, with the
  error given.
\<close>

record image =
  img_format :: string
  img_width :: nat
  img_height :: nat
  img_orientation :: "nat option"
  img_pages :: nat

datatype buffer_content =
    Unreadable js_error
  | Readable image "js_error option"

text \<open>
  A file part as multer hands it on.  \<open>truncated\<close> is the flag of the multipart parser's
  file stream: the part ran into the \<open>fileSize\<close> limit.  The parser sets it from the
  number of bytes it has read; at which count it does so is the parser's matter.
\<close>

record upload_file =
  originalname :: string
  mimetype :: string
  file_size :: nat
  truncated :: bool
  buffer :: buffer_content

definition fileSize_limit :: nat where
  "fileSize_limit = 10 * 1024 * 1024"

definition files_limit :: nat where
  "files_limit = 1"

definition allowedMimes :: "string list" where
  "allowedMimes = [''image/jpeg'', ''image/png'', ''image/webp'', ''image/gif'']"

definition fileFilter :: "upload_file \<Rightarrow> js_error option" where
  "fileFilter file =
     (if mimetype file \<in> set allowedMimes then None
      else Some (Error ''Invalid file type. Only JPEG, PNG, WebP, and GIF images are allowed.''))"

text \<open>
  The body of a request as multer's \<open>upload.single('image')\<close> meets it: a body the parser
  fails on, a body that breaks one of multer's other limits (a file under another field
  name, a second file), a body without a file, or one file part under \<open>image\<close>.
\<close>

datatype multipart =
    Unparsable js_error
  | Limit_broken js_error
  | No_file
  | File_part upload_file

datatype upload_error = MulterError js_error | OtherError js_error

definition upload_single :: "multipart \<Rightarrow> upload_error + upload_file option" where
  "upload_single b =
     (case b of
        Unparsable e \<Rightarrow> Inl (OtherError e)
      | Limit_broken e \<Rightarrow> Inl (MulterError e)
      | No_file \<Rightarrow> Inr None
      | File_part file \<Rightarrow>
          (case fileFilter file of
             Some e \<Rightarrow> Inl (OtherError e)
           | None \<Rightarrow>
               if truncated file
               then Inl (MulterError \<lparr>err_code = Some ''LIMIT_FILE_SIZE'', err_message = ''File too large''\<rparr>)
               else Inr (Some file)))"

section \<open>The image transcoder (sharp)\<close>

record metadata =
  meta_format :: string
  meta_width :: nat
  meta_height :: nat

text \<open>
  \<open>sharp(input).metadata()\<close> reads the header: the format and the pixel size as stored.
  sharp documents \<open>width\<close> and \<open>height\<close> as not taking the EXIF orientation into
  consideration.
\<close>

definition sharp_metadata :: "buffer_content \<Rightarrow> js_error + metadata" where
  "sharp_metadata input =
     (case input of
        Unreadable e \<Rightarrow> Inl e
      | Readable img _ \<Rightarrow>
          Inr \<lparr>meta_format = img_format img, meta_width = img_width img,
               meta_height = img_height img\<rparr>)"

text \<open>
  \<open>sharp(input, options)\<close> reads every page of the input when \<open>animated\<close> is set and the
  first page otherwise (the option \<open>pages\<close> defaults to 1).  The pipeline is lazy: it
  holds the image that the header describes, and the error of the pixel data, if there is
  one, is raised only when \<open>toFile\<close> runs the pipeline.
\<close>

record pipeline =
  decoded :: image
  pixel_error :: "js_error option"

definition sharp :: "buffer_content \<Rightarrow> bool \<Rightarrow> js_error + pipeline" where
  "sharp input animated =
     (case input of
        Unreadable e \<Rightarrow> Inl e
      | Readable img fault \<Rightarrow>
          Inr \<lparr>decoded = img\<lparr>img_pages := (if animated then img_pages img else 1)\<rparr>,
               pixel_error = fault\<rparr>)"

text \<open>
  \<open>.rotate()\<close> without an angle applies the EXIF orientation and removes the tag; the
  orientations 5 to 8 turn the image by a quarter, which exchanges width and height.
\<close>

definition quarter_turn :: "nat option \<Rightarrow> bool" where
  "quarter_turn orientation =
     (case orientation of None \<Rightarrow> False | Some k \<Rightarrow> 5 \<le> k \<and> k \<le> 8)"

definition rotate_img :: "image \<Rightarrow> image" where
  "rotate_img img =
     (if quarter_turn (img_orientation img)
      then img\<lparr>img_width := img_height img, img_height := img_width img, img_orientation := None\<rparr>
      else img\<lparr>img_orientation := None\<rparr>)"

record webp_options =
  quality :: nat
  effort :: nat
  opt_animated :: bool

text \<open>The WebP file that \<open>.webp(options).toFile(path)\<close> writes.\<close>

record artifact =
  art_width :: nat
  art_height :: nat
  art_frames :: nat
  art_options :: webp_options

definition webp :: "webp_options \<Rightarrow> image \<Rightarrow> artifact" where
  "webp options img =
     \<lparr>art_width = img_width img, art_height = img_height img, art_frames = img_pages img,
      art_options = options\<rparr>"

section \<open>The request environment and the storage directory\<close>

text \<open>
  What a request reads from outside: the clock; \<open>csprng\<close>, the bytes of the operating
  system's cryptographically secure generator, which is the source \<open>crypto.randomBytes\<close>
  reads; the working directory of the process; the fault the file system raises on a
  write, if any; and whether a \<open>toFile\<close> that fails has by then created the output
  file.  The lines written to the console are left out.

  The storage maps the absolute path of each file in it to its content: a complete WebP
  image, or the empty or cut-off file that a failed \<open>toFile\<close> leaves behind.
\<close>

record env =
  now :: nat
  csprng :: "nat \<Rightarrow> 8 word"
  cwd :: string
  write_fault :: "js_error option"
  leaves_partial :: bool

datatype stored_file = Written artifact | Partial

type_synonym storage = "string \<rightharpoonup> stored_file"

text \<open>
  \<open>toFile\<close> runs the pipeline and writes.  It fails with the error of the pixel data or
  with the fault of the file system; nothing removes the file it has created by then, so
  an error comes with the storage as the failure leaves it.
\<close>

definition failed_write :: "env \<Rightarrow> storage \<Rightarrow> string \<Rightarrow> storage" where
  "failed_write e st outputPath = (if leaves_partial e then st(outputPath \<mapsto> Partial) else st)"

definition toFile ::
  "env \<Rightarrow> storage \<Rightarrow> string \<Rightarrow> js_error option \<Rightarrow> artifact \<Rightarrow> (js_error \<times> storage) + storage" where
  "toFile e st outputPath fault art =
     (case fault of
        Some err \<Rightarrow> Inl (err, failed_write e st outputPath)
      | None \<Rightarrow>
          (case write_fault e of
             Some err \<Rightarrow> Inl (err, failed_write e st outputPath)
           | None \<Rightarrow> Inr (st(outputPath \<mapsto> Written art))))"

section \<open>POST /upload\<close>

record request =
  authorization :: "js_string option"
  multipart_body :: multipart

text \<open>
  The body of the \<open>try\<close> block, with the generated file name passed in.  \<open>Inl\<close> is a
  thrown error together with the storage at that moment; \<open>Inr\<close> is the response
  together with the storage after the write.
  \<open>outputPath_inside\<close> is the test that the output path starts with the resolved upload
  directory.
\<close>

definition outputPath_inside :: "config \<Rightarrow> env \<Rightarrow> string \<Rightarrow> bool" where
  "outputPath_inside cfg e filename =
     startsWith (path_resolve (cwd e) [uploadDir cfg, filename])
       (path_resolve (cwd e) [uploadDir cfg])"

definition try_block ::
  "config \<Rightarrow> env \<Rightarrow> storage \<Rightarrow> upload_file \<Rightarrow> string \<Rightarrow>
     (js_error \<times> storage) + (response \<times> storage)" where
  "try_block cfg e st file filename =
     (case sharp_metadata (buffer file) of
        Inl err \<Rightarrow> Inl (err, st)
      | Inr metadata \<Rightarrow>
          let isGif = (meta_format metadata = ''gif'');
              outputPath = path_resolve (cwd e) [uploadDir cfg, filename]
          in if \<not> outputPath_inside cfg e filename
             then Inl (Error ''Invalid file path'', st)
             else
               let webpOptions = \<lparr>quality = 80, effort = 4, opt_animated = isGif\<rparr>
               in (case sharp (buffer file) isGif of
                     Inl err \<Rightarrow> Inl (err, st)
                   | Inr pl \<Rightarrow>
                       (case toFile e st outputPath (pixel_error pl)
                               (webp webpOptions (rotate_img (decoded pl))) of
                          Inl failure \<Rightarrow> Inl failure
                        | Inr st' \<Rightarrow>
                            let imageUrl = baseUrl cfg @ ''/images/'' @ filename
                            in Inr (\<lparr>status = 201, body = JObject
                                      [(''success'', JBool True),
                                       (''url'', JString imageUrl),
                                       (''filename'', JString filename),
                                       (''originalFormat'', JString (meta_format metadata)),
                                       (''size'', JObject
                                          [(''width'', JNumber (meta_width metadata)),
                                           (''height'', JNumber (meta_height metadata))])]\<rparr>,
                                    st'))))"

definition catch_block :: "js_error \<Rightarrow> response" where
  "catch_block error =
     (if err_code error = Some ''ENOSPC''
      then \<lparr>status = 507, body = JObject
              [(''error'', JString ''Insufficient storage space on server.'')]\<rparr>
      else if includes_str (err_message error) ''Input buffer''
      then \<lparr>status = 400, body = JObject
              [(''error'', JString ''Invalid or corrupted image file.'')]\<rparr>
      else \<lparr>status = 500, body = JObject
              [(''error'', JString ''Failed to process image''),
               (''message'', JString (err_message error))]\<rparr>)"

text \<open>
  The \<open>try\<close> block under its \<open>catch\<close>: a thrown error is answered, and the storage
  stays as the error left it.
\<close>

definition process_upload ::
  "config \<Rightarrow> env \<Rightarrow> storage \<Rightarrow> upload_file \<Rightarrow> string \<Rightarrow> response \<times> storage" where
  "process_upload cfg e st file filename =
     (case try_block cfg e st file filename of
        Inl (error, left) \<Rightarrow> (catch_block error, left)
      | Inr written \<Rightarrow> written)"

text \<open>
  The text \<^verbatim>\<open>No image file provided. Use multipart/form-data with field name "image".\<close>;
  the double quote is character 34.
\<close>

definition no_file_message :: string where
  "no_file_message =
     ''No image file provided. Use multipart/form-data with field name '' @
     [char_of (34 :: nat)] @ ''image'' @ [char_of (34 :: nat)] @ ''.''"

text \<open>The callback that multer calls with its error or with the parsed file.\<close>

definition upload_callback ::
  "config \<Rightarrow> env \<Rightarrow> storage \<Rightarrow> upload_error + upload_file option \<Rightarrow> response \<times> storage" where
  "upload_callback cfg e st parsed =
     (case parsed of
        Inl (MulterError err) \<Rightarrow>
          if err_code err = Some ''LIMIT_FILE_SIZE''
          then (\<lparr>status = 413, body = JObject
                  [(''error'', JString ''File too large. Maximum size is 10MB.'')]\<rparr>, st)
          else (\<lparr>status = 400, body = JObject [(''error'', JString (err_message err))]\<rparr>, st)
      | Inl (OtherError err) \<Rightarrow>
          (\<lparr>status = 400, body = JObject [(''error'', JString (err_message err))]\<rparr>, st)
      | Inr None \<Rightarrow>
          (\<lparr>status = 400, body = JObject
             [(''error'', JString no_file_message)]\<rparr>, st)
      | Inr (Some file) \<Rightarrow>
          process_upload cfg e st file (generateSafeFilename (now e) (csprng e)))"

text \<open>
  The route: \<open>authenticateAPIKey\<close> first; an error thrown inside it reaches the global
  error handler; \<open>next()\<close> runs multer and the callback.
\<close>

definition post_upload :: "config \<Rightarrow> env \<Rightarrow> storage \<Rightarrow> request \<Rightarrow> response \<times> storage" where
  "post_upload cfg e st req =
     (case authenticateAPIKey cfg (authorization req) of
        Responded res \<Rightarrow> (res, st)
      | Threw err \<Rightarrow> (global_error_handler err, st)
      | Next \<Rightarrow> upload_callback cfg e st (upload_single (multipart_body req)))"

text \<open>Reading a field of a JSON object.\<close>

definition json_field :: "json \<Rightarrow> string \<Rightarrow> json option" where
  "json_field j k = (case j of JObject members \<Rightarrow> map_of members k | _ \<Rightarrow> None)"

text \<open>
  The static route \<open>/images\<close> serves the file of that name in the upload directory.
\<close>

definition get_image :: "config \<Rightarrow> env \<Rightarrow> storage \<Rightarrow> string \<Rightarrow> stored_file option" where
  "get_image cfg e st filename = st (path_resolve (cwd e) [uploadDir cfg, filename])"

section \<open>Observations on responses and stored files\<close>

definition reported_size :: "response \<Rightarrow> (nat \<times> nat) option" where
  "reported_size res =
     (case json_field (body res) ''size'' of
        None \<Rightarrow> None
      | Some sz \<Rightarrow>
          (case (json_field sz ''width'', json_field sz ''height'') of
             (Some (JNumber w), Some (JNumber h)) \<Rightarrow> Some (w, h)
           | _ \<Rightarrow> None))"

definition reported_filename :: "response \<Rightarrow> string option" where
  "reported_filename res =
     (case json_field (body res) ''filename'' of Some (JString name) \<Rightarrow> Some name | _ \<Rightarrow> None)"

text \<open>The pixel size and the frames of a served file, when it is a complete image.\<close>

definition artifact_size :: "stored_file option \<Rightarrow> (nat \<times> nat) option" where
  "artifact_size f =
     (case f of Some (Written art) \<Rightarrow> Some (art_width art, art_height art) | _ \<Rightarrow> None)"

definition artifact_frames :: "stored_file option \<Rightarrow> nat option" where
  "artifact_frames f = (case f of Some (Written art) \<Rightarrow> Some (art_frames art) | _ \<Rightarrow> None)"

definition source_frames :: "upload_file \<Rightarrow> nat" where
  "source_frames file = (case buffer file of Unreadable _ \<Rightarrow> 0 | Readable img _ \<Rightarrow> img_pages img)"

section \<open>Example requests\<close>

definition example_config :: config where
  "example_config =
     \<lparr>port = 3000, apiKey = ascii ''0123456789abcdef0123456789abcdef'',
      uploadDir = ''./uploads'', baseUrl = ''http://localhost:3000''\<rparr>"

definition example_env :: env where
  "example_env =
     \<lparr>now = 1709020800000, csprng = (\<lambda>i. of_nat (17 * i + 3)), cwd = ''/srv/app'',
      write_fault = None, leaves_partial = True\<rparr>"

definition example_filename :: string where
  "example_filename = ''1709020800000-031425364758697a.webp''"

definition valid_header :: "js_string option" where
  "valid_header = Some (ascii ''Bearer 0123456789abcdef0123456789abcdef'')"

text \<open>
  A header whose token has the 32 code units of the key, the last one being U+00E9, which
  takes two bytes in UTF-8.  Node hands header bytes above 127 on as code units of that
  value.
\<close>

definition latin1_header :: "js_string option" where
  "latin1_header = Some (ascii ''Bearer 0123456789abcdef0123456789abcde'' @ [0xE9])"

definition wrong_header :: "js_string option" where
  "wrong_header = Some (ascii ''Bearer 0123456789abcdef0123456789abcdeX'')"

text \<open>A JPEG of 4000 by 3000 stored pixels whose EXIF orientation is 6 (a quarter turn).\<close>

definition rotated_jpeg :: upload_file where
  "rotated_jpeg =
     \<lparr>originalname = ''IMG_0001.jpg'', mimetype = ''image/jpeg'', file_size = 2500000,
      truncated = False,
      buffer = Readable \<lparr>img_format = ''jpeg'', img_width = 4000, img_height = 3000,
                         img_orientation = Some 6, img_pages = 1\<rparr> None\<rparr>"

definition upright_png :: upload_file where
  "upright_png =
     \<lparr>originalname = ''../../etc/passwd'', mimetype = ''image/png'', file_size = 120000,
      truncated = False,
      buffer = Readable \<lparr>img_format = ''png'', img_width = 640, img_height = 480,
                         img_orientation = None, img_pages = 1\<rparr> None\<rparr>"

definition animated_gif :: upload_file where
  "animated_gif =
     \<lparr>originalname = ''clip.gif'', mimetype = ''image/gif'', file_size = 300000,
      truncated = False,
      buffer = Readable \<lparr>img_format = ''gif'', img_width = 320, img_height = 200,
                         img_orientation = None, img_pages = 12\<rparr> None\<rparr>"

definition animated_webp :: upload_file where
  "animated_webp =
     \<lparr>originalname = ''clip.webp'', mimetype = ''image/webp'', file_size = 300000,
      truncated = False,
      buffer = Readable \<lparr>img_format = ''webp'', img_width = 320, img_height = 200,
                         img_orientation = None, img_pages = 3\<rparr> None\<rparr>"

text \<open>
  A file part without content: sharp refuses an empty buffer with the message
  \<open>Input Buffer is empty\<close>.
\<close>

definition empty_file :: upload_file where
  "empty_file =
     \<lparr>originalname = ''empty.png'', mimetype = ''image/png'', file_size = 0,
      truncated = False, buffer = Unreadable (Error ''Input Buffer is empty'')\<rparr>"

text \<open>
  A JPEG cut off after its header: the header reads, the pixel data does not, and sharp
  passes on the decoder's message.
\<close>

definition cut_off_jpeg :: upload_file where
  "cut_off_jpeg =
     \<lparr>originalname = ''half.jpg'', mimetype = ''image/jpeg'', file_size = 40000,
      truncated = False,
      buffer = Readable \<lparr>img_format = ''jpeg'', img_width = 800, img_height = 600,
                         img_orientation = None, img_pages = 1\<rparr>
                 (Some (Error ''VipsJpeg: Premature end of input file''))\<rparr>"

definition upload_of :: "js_string option \<Rightarrow> upload_file \<Rightarrow> request" where
  "upload_of header file = \<lparr>authorization = header, multipart_body = File_part file\<rparr>"

section \<open>File names\<close>

lemma is_digit_digit_char: "d < 10 \<Longrightarrow> is_digit (digit_char d)"
  by (simp add: is_digit_def digit_char_def)

lemma number_toString_digits: "list_all is_digit (number_toString n)"
proof (induction n rule: number_toString.induct)
  case (1 n)
  show ?case
  proof (cases "n < 10")
    case True
    then show ?thesis by (subst number_toString.simps) (simp add: is_digit_digit_char)
  next
    case False
    with "1" have "list_all is_digit (number_toString (n div 10))" by simp
    moreover have "is_digit (digit_char (n mod 10))" by (simp add: is_digit_digit_char)
    ultimately show ?thesis using False by (subst number_toString.simps) simp
  qed
qed


lemma is_lower_hex_hex_char: "n < 16 \<Longrightarrow> is_lower_hex (hex_char n)"
  by (simp add: is_lower_hex_def is_digit_def hex_char_def)

lemma byte_hex_lower: "list_all is_lower_hex (byte_hex b)"
proof -
  have "unat b < 256" using unsigned_less [of b, where ?'a = nat] by simp
  then have "unat b div 16 < 16" by simp
  then show ?thesis by (simp add: byte_hex_def is_lower_hex_hex_char)
qed

lemma toString_hex_lower: "list_all is_lower_hex (toString_hex bs)"
  by (induction bs) (simp_all add: toString_hex_def byte_hex_lower)





section \<open>Path resolution\<close>

lemma split_slash_nonempty: "split_slash s \<noteq> []"
  by (induction s) (simp_all split: list.split)

lemma split_slash_append:
  "split_slash (a @ CHR ''/'' # b) = split_slash a @ split_slash b"
proof (induction a)
  case Nil
  then show ?case by simp
next
  case (Cons c a)
  then show ?case
    using split_slash_nonempty [of a] by (simp split: list.split)
qed

lemma split_slash_plain: "CHR ''/'' \<notin> set s \<Longrightarrow> split_slash s = [s]"
  by (induction s) auto

lemma resolve_args_acc:
  "resolve_args ps acc = (fst (resolve_args ps []) @ acc, snd (resolve_args ps []))"
proof (induction ps arbitrary: acc)
  case Nil
  then show ?case by simp
next
  case (Cons p ps)
  show ?case
  proof (cases "p = [] \<or> hd p \<noteq> CHR ''/''")
    case True
    then show ?thesis
      using Cons [of "p @ ''/'' @ acc"] Cons [of "p @ ''/''"] Cons [of acc] by auto
  next
    case False
    then show ?thesis by simp
  qed
qed

lemma resolve_args_slash:
  "fst (resolve_args ps []) = [] \<or> (\<exists>q. fst (resolve_args ps []) = q @ ''/'')"
proof (induction ps)
  case Nil
  then show ?case by simp
next
  case (Cons p ps)
  show ?case
  proof (cases "p = []")
    case True
    then show ?thesis using Cons by simp
  next
    case False
    show ?thesis
    proof (cases "hd p = CHR ''/''")
      case True
      with False show ?thesis by simp
    next
      case nabs: False
      have "resolve_args (p # ps) [] = resolve_args ps (p @ ''/'')"
        using False nabs by simp
      also have "\<dots> = (fst (resolve_args ps []) @ p @ ''/'', snd (resolve_args ps []))"
        by (rule resolve_args_acc)
      finally show ?thesis by simp
    qed
  qed
qed

lemma resolve_args_absolute:
  "c \<noteq> [] \<Longrightarrow> hd c = CHR ''/'' \<Longrightarrow> snd (resolve_args (ps @ [c]) acc)"
  by (induction ps arbitrary: acc) simp_all

lemma join_slash_snoc:
  "join_slash (xs @ [s]) = (if xs = [] then s else join_slash xs @ ''/'' @ s)"
  by (induction xs rule: join_slash.induct) simp_all

lemma norm_step_nonempty:
  "\<forall>s \<in> set kept. s \<noteq> [] \<Longrightarrow> \<forall>s \<in> set (norm_step up kept seg). s \<noteq> []"
  by (auto simp: norm_step_def split: list.splits if_splits)

lemma foldl_norm_step_nonempty:
  "\<forall>s \<in> set kept. s \<noteq> [] \<Longrightarrow> \<forall>s \<in> set (foldl (norm_step up) kept segs). s \<noteq> []"
proof (induction segs arbitrary: kept)
  case Nil
  then show ?case by simp
next
  case (Cons seg segs)
  from Cons.prems have "\<forall>s \<in> set (norm_step up kept seg). s \<noteq> []"
    by (rule norm_step_nonempty)
  then show ?case using Cons.IH by simp
qed

lemma join_slash_empty:
  "\<forall>s \<in> set xs. s \<noteq> [] \<Longrightarrow> join_slash xs = [] \<longleftrightarrow> xs = []"
  by (induction xs rule: join_slash.induct) simp_all

lemma path_resolve_child:
  assumes cwd: "c \<noteq> []" "hd c = CHR ''/''"
    and fn: "plain_name fn"
  shows "path_resolve c [root, fn] =
           (if path_resolve c [root] = ''/'' then ''/'' @ fn
            else path_resolve c [root] @ ''/'' @ fn)"
proof -
  define P where "P = fst (resolve_args [root, c] [])"
  have abs: "snd (resolve_args [root, c] [])"
    using resolve_args_absolute [OF cwd, of "[root]" "[]"] by simp
  have one: "resolve_args (rev [root] @ [c]) [] = (P, True)"
    using abs by (simp add: P_def prod_eq_iff del: resolve_args.simps)
  have "resolve_args (rev [root, fn] @ [c]) [] = resolve_args [root, c] (fn @ ''/'')"
    using fn by (cases fn) (auto simp: plain_name_def)
  also have "\<dots> = (P @ fn @ ''/'', True)"
    using abs resolve_args_acc [of "[root, c]" "fn @ ''/''"] by (simp add: P_def del: resolve_args.simps)
  finally have two: "resolve_args (rev [root, fn] @ [c]) [] = (P @ fn @ ''/'', True)" .
  have "P \<noteq> []"
    using cwd by (cases c) (auto simp: P_def)
  then obtain q where q: "P = q @ ''/''"
    using resolve_args_slash [of "[root, c]"] by (auto simp: P_def)
  define K where "K = foldl (norm_step False) [] (split_slash q)"
  have splitP: "split_slash P = split_slash q @ [[]]"
    using split_slash_append [of q "[]"] by (simp add: q)
  have splitF: "split_slash (P @ fn @ ''/'') = split_slash q @ [fn, []]"
  proof -
    have "split_slash (P @ fn @ ''/'') = split_slash (q @ CHR ''/'' # (fn @ CHR ''/'' # []))"
      by (simp add: q)
    also have "\<dots> = split_slash q @ split_slash fn @ split_slash []"
      by (simp only: split_slash_append)
    finally show ?thesis
      using fn by (simp add: split_slash_plain plain_name_def)
  qed
  have nP: "foldl (norm_step False) [] (split_slash P) = K"
    by (simp add: splitP K_def norm_step_def)
  have nF: "foldl (norm_step False) [] (split_slash (P @ fn @ ''/'')) = fn # K"
    using fn by (simp add: splitF K_def norm_step_def plain_name_def)
  have rP: "path_resolve c [root] = CHR ''/'' # join_slash (rev K)"
    unfolding path_resolve_def one by (simp add: normalizeString_def nP)
  have rF: "path_resolve c [root, fn] = CHR ''/'' # join_slash (rev K @ [fn])"
    unfolding path_resolve_def two by (simp add: normalizeString_def nF)
  have Kne: "\<forall>s \<in> set (rev K). s \<noteq> []"
    using foldl_norm_step_nonempty [of "[]" False "split_slash q"] by (simp add: K_def)
  show ?thesis
  proof (cases "K = []")
    case True
    then show ?thesis by (simp add: rP rF)
  next
    case False
    then have "join_slash (rev K) \<noteq> []"
      using join_slash_empty [OF Kne] by simp
    then show ?thesis using False by (simp add: rP rF join_slash_snoc)
  qed
qed

lemma path_resolve_absolute:
  assumes "absolute_path c"
  shows "\<exists>j. path_resolve c args = CHR ''/'' # j"
proof -
  have "snd (resolve_args (rev args @ [c]) [])"
    using assms by (simp add: absolute_path_def resolve_args_absolute)
  then show ?thesis
    by (cases "resolve_args (rev args @ [c]) []") (simp add: path_resolve_def)
qed

lemma startsWith_append: "startsWith (p @ s) p"
  by (simp add: startsWith_def)

lemma path_dirname_child:
  assumes "plain_name fn" "j \<noteq> []"
  shows "path_dirname ((CHR ''/'' # j) @ ''/'' @ fn) = CHR ''/'' # j"
proof -
  have ns: "\<And>c. c \<in> set (rev fn) \<Longrightarrow> c \<noteq> CHR ''/''"
    using assms(1) by (auto simp: plain_name_def)
  obtain a fn' where rf: "rev fn = a # fn'"
    using assms(1) by (cases "rev fn") (auto simp: plain_name_def)
  have a: "a \<noteq> CHR ''/''" using ns [of a] rf by simp
  have d1: "dropWhile (\<lambda>c. c = CHR ''/'') (rev fn @ CHR ''/'' # rev j) = rev fn @ CHR ''/'' # rev j"
    using a by (simp add: rf)
  have "dropWhile (\<lambda>c. c \<noteq> CHR ''/'') (rev fn @ CHR ''/'' # rev j) =
        dropWhile (\<lambda>c. c \<noteq> CHR ''/'') (CHR ''/'' # rev j)"
    by (rule dropWhile_append2) (use ns in blast)
  then have d2: "dropWhile (\<lambda>c. c \<noteq> CHR ''/'') (rev fn @ CHR ''/'' # rev j) = CHR ''/'' # rev j"
    by simp
  show ?thesis
    using assms(2) by (simp add: path_dirname_def d1 d2 Let_def)
qed

lemma path_dirname_root_child:
  assumes "plain_name fn"
  shows "path_dirname (''/'' @ fn) = ''/''"
proof -
  have ns: "\<And>c. c \<in> set (rev fn) \<Longrightarrow> c \<noteq> CHR ''/''"
    using assms(1) by (auto simp: plain_name_def)
  obtain a fn' where rf: "rev fn = a # fn'"
    using assms(1) by (cases "rev fn") (auto simp: plain_name_def)
  have a: "a \<noteq> CHR ''/''" using ns [of a] rf by simp
  have d1: "dropWhile (\<lambda>c. c = CHR ''/'') (rev fn) = rev fn"
    using a by (simp add: rf)
  have d2: "dropWhile (\<lambda>c. c \<noteq> CHR ''/'') (rev fn) = []"
    unfolding dropWhile_eq_Nil_conv using ns by blast
  show ?thesis
    by (simp add: path_dirname_def d1 d2 Let_def)
qed

lemma number_toString_no_slash: "CHR ''/'' \<notin> set (number_toString n)"
proof
  assume "CHR ''/'' \<in> set (number_toString n)"
  then have "is_digit CHR ''/''"
    using number_toString_digits [of n] by (simp add: list_all_iff)
  then show False by (simp add: is_digit_def)
qed

lemma toString_hex_no_slash: "CHR ''/'' \<notin> set (toString_hex bs)"
proof
  assume "CHR ''/'' \<in> set (toString_hex bs)"
  then have "is_lower_hex CHR ''/''"
    using toString_hex_lower [of bs] by (simp add: list_all_iff)
  then show False by (simp add: is_lower_hex_def is_digit_def)
qed

lemma generateSafeFilename_plain: "plain_name (generateSafeFilename timestamp source)"
proof -
  have "length (generateSafeFilename timestamp source) \<ge> 5"
    by (simp add: generateSafeFilename_def)
  then have "generateSafeFilename timestamp source \<noteq> []"
    "generateSafeFilename timestamp source \<noteq> ''.''"
    "generateSafeFilename timestamp source \<noteq> ''..''"
    by auto
  moreover have "CHR ''/'' \<notin> set (generateSafeFilename timestamp source)"
    by (simp add: generateSafeFilename_def number_toString_no_slash toString_hex_no_slash)
  ultimately show ?thesis by (simp add: plain_name_def)
qed

lemma plain_child_inside:
  assumes "absolute_path (cwd e)" "plain_name fn"
  shows "outputPath_inside cfg e fn"
    and "path_dirname (path_resolve (cwd e) [uploadDir cfg, fn]) = path_resolve (cwd e) [uploadDir cfg]"
proof -
  obtain j where j: "path_resolve (cwd e) [uploadDir cfg] = CHR ''/'' # j"
    using path_resolve_absolute [OF assms(1)] by blast
  have child: "path_resolve (cwd e) [uploadDir cfg, fn] =
      (if j = [] then ''/'' @ fn else (CHR ''/'' # j) @ ''/'' @ fn)"
    using path_resolve_child [of "cwd e" fn "uploadDir cfg"] assms
    by (simp add: absolute_path_def j)
  show "outputPath_inside cfg e fn"
    by (simp add: outputPath_inside_def child j startsWith_def)
  show "path_dirname (path_resolve (cwd e) [uploadDir cfg, fn]) = path_resolve (cwd e) [uploadDir cfg]"
  proof (cases "j = []")
    case True
    then show ?thesis
      using path_dirname_root_child [OF assms(2)] by (simp add: child j)
  next
    case False
    then show ?thesis
      using path_dirname_child [OF assms(2) False] by (simp add: child j)
  qed
qed

section \<open>Accepted uploads\<close>

lemma catch_block_status: "status (catch_block err) \<in> {507, 400, 500}"
  by (simp add: catch_block_def)

lemma try_block_Inr:
  assumes "try_block cfg e st file fn = Inr (res, st')"
  shows "\<exists>img. buffer file = Readable img None \<and> outputPath_inside cfg e fn \<and>
           write_fault e = None \<and>
           res = \<lparr>status = 201, body = JObject
                   [(''success'', JBool True),
                    (''url'', JString (baseUrl cfg @ ''/images/'' @ fn)),
                    (''filename'', JString fn),
                    (''originalFormat'', JString (img_format img)),
                    (''size'', JObject
                       [(''width'', JNumber (img_width img)),
                        (''height'', JNumber (img_height img))])]\<rparr> \<and>
           st' = st(path_resolve (cwd e) [uploadDir cfg, fn] \<mapsto>
                  Written (webp \<lparr>quality = 80, effort = 4, opt_animated = (img_format img = ''gif'')\<rparr>
                    (rotate_img (img\<lparr>img_pages := (if img_format img = ''gif'' then img_pages img else 1)\<rparr>))))"
proof (cases "buffer file")
  case (Unreadable err)
  with assms show ?thesis by (simp add: try_block_def sharp_metadata_def)
next
  case (Readable img perr)
  show ?thesis
  proof (cases perr)
    case None
    with assms Readable show ?thesis
      by (cases "write_fault e")
         (auto simp: try_block_def sharp_metadata_def sharp_def toFile_def Let_def
               split: if_splits)
  next
    case (Some err)
    with assms Readable show ?thesis
      by (simp add: try_block_def sharp_metadata_def sharp_def toFile_def Let_def
            split: if_splits)
  qed
qed

lemma try_block_Inl:
  assumes "try_block cfg e st file fn = Inl (err, left)"
  shows "left = st \<or> left = st(path_resolve (cwd e) [uploadDir cfg, fn] \<mapsto> Partial)"
  using assms
  by (auto simp: try_block_def toFile_def failed_write_def Let_def
           split: sum.splits if_splits option.splits)

lemma process_upload_201:
  assumes "process_upload cfg e st file fn = (res, st')" "status res = 201"
  shows "try_block cfg e st file fn = Inr (res, st')"
proof (cases "try_block cfg e st file fn")
  case (Inl failure)
  with assms(1) have "res = catch_block (fst failure)"
    by (cases failure) (simp add: process_upload_def)
  with assms(2) catch_block_status [of "fst failure"] show ?thesis by simp
next
  case (Inr ok)
  with assms(1) show ?thesis by (simp add: process_upload_def)
qed

lemma upload_single_Some:
  assumes "upload_single b = Inr (Some file)"
  shows "b = File_part file \<and> fileFilter file = None \<and> \<not> truncated file"
  using assms by (cases b) (auto simp: upload_single_def split: option.splits if_splits)

lemma upload_callback_201:
  assumes "upload_callback cfg e st parsed = (res, st')" "status res = 201"
  shows "\<exists>file. parsed = Inr (Some file) \<and>
           process_upload cfg e st file (generateSafeFilename (now e) (csprng e)) = (res, st')"
proof (cases parsed)
  case (Inl uerr)
  with assms show ?thesis
    by (cases uerr) (auto simp: upload_callback_def split: if_splits)
next
  case (Inr fo)
  with assms show ?thesis
    by (cases fo) (auto simp: upload_callback_def)
qed

lemma auth_status:
  "authenticateAPIKey cfg h = Responded res \<Longrightarrow> status res = 401 \<or> status res = 403"
  by (auto simp: authenticateAPIKey_def unauthorized_def forbidden_def Let_def
           split: option.splits if_splits sum.splits)

lemma post_upload_201:
  assumes "post_upload cfg e st req = (res, st')" "status res = 201"
  shows "authenticateAPIKey cfg (authorization req) = Next \<and>
         (\<exists>file. multipart_body req = File_part file \<and> fileFilter file = None \<and>
            \<not> truncated file \<and>
            try_block cfg e st file (generateSafeFilename (now e) (csprng e)) = Inr (res, st'))"
proof (cases "authenticateAPIKey cfg (authorization req)")
  case (Responded r)
  with assms auth_status [OF Responded] show ?thesis by (auto simp: post_upload_def)
next
  case Next
  with assms have cb: "upload_callback cfg e st (upload_single (multipart_body req)) = (res, st')"
    by (simp add: post_upload_def)
  from upload_callback_201 [OF cb assms(2)] obtain upl where
    f: "upload_single (multipart_body req) = Inr (Some upl)"
    and p: "process_upload cfg e st upl (generateSafeFilename (now e) (csprng e)) = (res, st')"
    by blast
  from upload_single_Some [OF f] process_upload_201 [OF p assms(2)] Next show ?thesis by simp
next
  case (Threw err)
  with assms show ?thesis by (auto simp: post_upload_def global_error_handler_def)
qed

section \<open>The example requests evaluated\<close>

lemma example_filename_eval:
  "generateSafeFilename (now example_env) (csprng example_env) = example_filename"
  by (simp add: generateSafeFilename_def example_env_def example_filename_def
        number_toString.simps digit_char_def toString_hex_def randomBytes_def byte_hex_def
        hex_char_def upt_rec char_of_eq_iff)

lemma example_auth: "authenticateAPIKey example_config valid_header = Next"
  by (simp add: authenticateAPIKey_def example_config_def valid_header_def ascii_def
        startsWith_def substring_def timingSafeEqual_def)

lemma example_root: "path_resolve (cwd example_env) [uploadDir example_config] = ''/srv/app/uploads''"
  by (simp add: path_resolve_def normalizeString_def norm_step_def example_env_def example_config_def)

lemma example_output:
  "path_resolve (cwd example_env) [uploadDir example_config, example_filename] =
     ''/srv/app/uploads/1709020800000-031425364758697a.webp''"
  by (simp add: path_resolve_def normalizeString_def norm_step_def example_env_def
        example_config_def example_filename_def)



lemma example_png_upload:
  "post_upload example_config example_env Map.empty (upload_of valid_header upright_png) =
     (\<lparr>status = 201, body = JObject
        [(''success'', JBool True),
         (''url'', JString ''http://localhost:3000/images/1709020800000-031425364758697a.webp''),
         (''filename'', JString ''1709020800000-031425364758697a.webp''),
         (''originalFormat'', JString ''png''),
         (''size'', JObject [(''width'', JNumber 640), (''height'', JNumber 480)])]\<rparr>,
      [''/srv/app/uploads/1709020800000-031425364758697a.webp'' \<mapsto>
         Written \<lparr>art_width = 640, art_height = 480, art_frames = 1,
          art_options = \<lparr>quality = 80, effort = 4, opt_animated = False\<rparr>\<rparr>])"
proof -
  have fn: "generateSafeFilename (now example_env) (csprng example_env) = example_filename"
    by (rule example_filename_eval)
  have inside: "outputPath_inside example_config example_env example_filename"
    by (simp add: outputPath_inside_def example_root example_output startsWith_def)
  have tb: "try_block example_config example_env Map.empty upright_png example_filename =
     Inr (\<lparr>status = 201, body = JObject
        [(''success'', JBool True),
         (''url'', JString ''http://localhost:3000/images/1709020800000-031425364758697a.webp''),
         (''filename'', JString ''1709020800000-031425364758697a.webp''),
         (''originalFormat'', JString ''png''),
         (''size'', JObject [(''width'', JNumber 640), (''height'', JNumber 480)])]\<rparr>,
      [''/srv/app/uploads/1709020800000-031425364758697a.webp'' \<mapsto>
         Written \<lparr>art_width = 640, art_height = 480, art_frames = 1,
          art_options = \<lparr>quality = 80, effort = 4, opt_animated = False\<rparr>\<rparr>])"
    using inside
    by (simp add: try_block_def upright_png_def sharp_metadata_def sharp_def toFile_def
          rotate_img_def quarter_turn_def webp_def example_output)
       (simp add: example_env_def example_config_def example_filename_def)
  show ?thesis
    by (simp add: post_upload_def upload_of_def example_auth upload_single_def fileFilter_def
          allowedMimes_def upload_callback_def process_upload_def fn tb)
       (simp add: upright_png_def)
qed

section \<open>The example uploads evaluated\<close>

lemma example_inside: "outputPath_inside example_config example_env example_filename"
  by (simp add: outputPath_inside_def example_root example_output startsWith_def)

lemma example_upload_readable:
  assumes "mimetype file \<in> set allowedMimes" "\<not> truncated file"
    and "buffer file = Readable img None"
  shows "post_upload example_config example_env st (upload_of valid_header file) =
     (\<lparr>status = 201, body = JObject
        [(''success'', JBool True),
         (''url'', JString ''http://localhost:3000/images/1709020800000-031425364758697a.webp''),
         (''filename'', JString ''1709020800000-031425364758697a.webp''),
         (''originalFormat'', JString (img_format img)),
         (''size'', JObject [(''width'', JNumber (img_width img)),
                             (''height'', JNumber (img_height img))])]\<rparr>,
      st(''/srv/app/uploads/1709020800000-031425364758697a.webp'' \<mapsto>
         Written (webp \<lparr>quality = 80, effort = 4, opt_animated = (img_format img = ''gif'')\<rparr>
           (rotate_img (img\<lparr>img_pages := (if img_format img = ''gif'' then img_pages img else 1)\<rparr>)))))"
proof -
  have tb: "try_block example_config example_env st file example_filename =
     Inr (\<lparr>status = 201, body = JObject
        [(''success'', JBool True),
         (''url'', JString ''http://localhost:3000/images/1709020800000-031425364758697a.webp''),
         (''filename'', JString ''1709020800000-031425364758697a.webp''),
         (''originalFormat'', JString (img_format img)),
         (''size'', JObject [(''width'', JNumber (img_width img)),
                             (''height'', JNumber (img_height img))])]\<rparr>,
      st(''/srv/app/uploads/1709020800000-031425364758697a.webp'' \<mapsto>
         Written (webp \<lparr>quality = 80, effort = 4, opt_animated = (img_format img = ''gif'')\<rparr>
           (rotate_img (img\<lparr>img_pages := (if img_format img = ''gif'' then img_pages img else 1)\<rparr>)))))"
    using example_inside assms(3)
    by (simp add: try_block_def sharp_metadata_def sharp_def toFile_def example_output)
       (simp add: example_env_def example_config_def example_filename_def)
  show ?thesis
    using assms(1,2)
    by (simp add: post_upload_def upload_of_def example_auth upload_single_def fileFilter_def
          upload_callback_def process_upload_def example_filename_eval tb)
qed

lemma example_jpeg_upload:
  "post_upload example_config example_env Map.empty (upload_of valid_header rotated_jpeg) =
     (\<lparr>status = 201, body = JObject
        [(''success'', JBool True),
         (''url'', JString ''http://localhost:3000/images/1709020800000-031425364758697a.webp''),
         (''filename'', JString ''1709020800000-031425364758697a.webp''),
         (''originalFormat'', JString ''jpeg''),
         (''size'', JObject [(''width'', JNumber 4000), (''height'', JNumber 3000)])]\<rparr>,
      [''/srv/app/uploads/1709020800000-031425364758697a.webp'' \<mapsto>
         Written \<lparr>art_width = 3000, art_height = 4000, art_frames = 1,
          art_options = \<lparr>quality = 80, effort = 4, opt_animated = False\<rparr>\<rparr>])"
  by (subst example_upload_readable
        [where img = "\<lparr>img_format = ''jpeg'', img_width = 4000, img_height = 3000,
                        img_orientation = Some 6, img_pages = 1\<rparr>"])
     (simp_all add: rotated_jpeg_def allowedMimes_def webp_def rotate_img_def quarter_turn_def)

lemma example_webp_upload:
  "post_upload example_config example_env Map.empty (upload_of valid_header animated_webp) =
     (\<lparr>status = 201, body = JObject
        [(''success'', JBool True),
         (''url'', JString ''http://localhost:3000/images/1709020800000-031425364758697a.webp''),
         (''filename'', JString ''1709020800000-031425364758697a.webp''),
         (''originalFormat'', JString ''webp''),
         (''size'', JObject [(''width'', JNumber 320), (''height'', JNumber 200)])]\<rparr>,
      [''/srv/app/uploads/1709020800000-031425364758697a.webp'' \<mapsto>
         Written \<lparr>art_width = 320, art_height = 200, art_frames = 1,
          art_options = \<lparr>quality = 80, effort = 4, opt_animated = False\<rparr>\<rparr>])"
  by (subst example_upload_readable
        [where img = "\<lparr>img_format = ''webp'', img_width = 320, img_height = 200,
                        img_orientation = None, img_pages = 3\<rparr>"])
     (simp_all add: animated_webp_def allowedMimes_def webp_def rotate_img_def quarter_turn_def)

lemma example_gif_upload:
  "post_upload example_config example_env Map.empty (upload_of valid_header animated_gif) =
     (\<lparr>status = 201, body = JObject
        [(''success'', JBool True),
         (''url'', JString ''http://localhost:3000/images/1709020800000-031425364758697a.webp''),
         (''filename'', JString ''1709020800000-031425364758697a.webp''),
         (''originalFormat'', JString ''gif''),
         (''size'', JObject [(''width'', JNumber 320), (''height'', JNumber 200)])]\<rparr>,
      [''/srv/app/uploads/1709020800000-031425364758697a.webp'' \<mapsto>
         Written \<lparr>art_width = 320, art_height = 200, art_frames = 12,
          art_options = \<lparr>quality = 80, effort = 4, opt_animated = True\<rparr>\<rparr>])"
  by (subst example_upload_readable
        [where img = "\<lparr>img_format = ''gif'', img_width = 320, img_height = 200,
                        img_orientation = None, img_pages = 12\<rparr>"])
     (simp_all add: animated_gif_def allowedMimes_def webp_def rotate_img_def quarter_turn_def)

lemma example_cut_off_try:
  "try_block example_config example_env Map.empty cut_off_jpeg example_filename =
     Inl (Error ''VipsJpeg: Premature end of input file'',
          [''/srv/app/uploads/1709020800000-031425364758697a.webp'' \<mapsto> Partial])"
  using example_inside
  by (simp add: try_block_def cut_off_jpeg_def sharp_metadata_def sharp_def toFile_def
        failed_write_def example_output)
     (simp add: example_env_def)

lemma example_cut_off_upload:
  "upload_callback example_config example_env Map.empty (Inr (Some cut_off_jpeg)) =
     (\<lparr>status = 500, body = JObject
        [(''error'', JString ''Failed to process image''),
         (''message'', JString ''VipsJpeg: Premature end of input file'')]\<rparr>,
      [''/srv/app/uploads/1709020800000-031425364758697a.webp'' \<mapsto> Partial])"
proof -
  note tb = example_cut_off_try
  have cb: "catch_block (Error ''VipsJpeg: Premature end of input file'') =
      \<lparr>status = 500, body = JObject
        [(''error'', JString ''Failed to process image''),
         (''message'', JString ''VipsJpeg: Premature end of input file'')]\<rparr>"
    by (simp add: catch_block_def Error_def startsWith_def)
  show ?thesis
    by (simp add: upload_callback_def process_upload_def example_filename_eval tb cb)
qed

lemma example_wrong_header:
  "authenticateAPIKey example_config wrong_header = Responded forbidden"
  by (simp add: authenticateAPIKey_def example_config_def wrong_header_def ascii_def
        startsWith_def substring_def timingSafeEqual_def)

section \<open>What an accepted upload stores and reports\<close>

lemma accepted_upload:
  assumes "post_upload cfg e st req = (res, st')" and "status res = 201"
  shows "\<exists>file img. multipart_body req = File_part file \<and> buffer file = Readable img None \<and>
           reported_filename res = Some (generateSafeFilename (now e) (csprng e)) \<and>
           reported_size res = Some (img_width img, img_height img) \<and>
           get_image cfg e st' (generateSafeFilename (now e) (csprng e)) =
             Some (Written (webp \<lparr>quality = 80, effort = 4, opt_animated = (img_format img = ''gif'')\<rparr>
                    (rotate_img (img\<lparr>img_pages := (if img_format img = ''gif'' then img_pages img else 1)\<rparr>))))"
proof -
  from post_upload_201 [OF assms] obtain upl where
    body: "multipart_body req = File_part upl"
    and tb: "try_block cfg e st upl (generateSafeFilename (now e) (csprng e)) = Inr (res, st')"
    by blast
  from try_block_Inr [OF tb] obtain img where
    buf: "buffer upl = Readable img None"
    and res: "res = \<lparr>status = 201, body = JObject
                   [(''success'', JBool True),
                    (''url'', JString (baseUrl cfg @ ''/images/'' @
                        generateSafeFilename (now e) (csprng e))),
                    (''filename'', JString (generateSafeFilename (now e) (csprng e))),
                    (''originalFormat'', JString (img_format img)),
                    (''size'', JObject
                       [(''width'', JNumber (img_width img)),
                        (''height'', JNumber (img_height img))])]\<rparr>"
    and st': "st' = st(path_resolve (cwd e)
                 [uploadDir cfg, generateSafeFilename (now e) (csprng e)] \<mapsto>
                  Written (webp \<lparr>quality = 80, effort = 4, opt_animated = (img_format img = ''gif'')\<rparr>
                    (rotate_img (img\<lparr>img_pages := (if img_format img = ''gif'' then img_pages img else 1)\<rparr>))))"
    by blast
  have "reported_filename res = Some (generateSafeFilename (now e) (csprng e))"
    by (simp add: res reported_filename_def json_field_def)
  moreover have "reported_size res = Some (img_width img, img_height img)"
    by (simp add: res reported_size_def json_field_def)
  moreover have "get_image cfg e st' (generateSafeFilename (now e) (csprng e)) =
             Some (Written (webp \<lparr>quality = 80, effort = 4, opt_animated = (img_format img = ''gif'')\<rparr>
                    (rotate_img (img\<lparr>img_pages := (if img_format img = ''gif'' then img_pages img else 1)\<rparr>))))"
    by (simp add: st' get_image_def)
  ultimately show ?thesis using body buf by blast
qed

section \<open>The path check on a name outside the upload directory\<close>

lemma invalid_path_response:
  "catch_block (Error ''Invalid file path'') =
     \<lparr>status = 500, body = JObject
        [(''error'', JString ''Failed to process image''),
         (''message'', JString ''Invalid file path'')]\<rparr>"
  by (simp add: catch_block_def Error_def startsWith_def)

lemma process_upload_outside:
  assumes "buffer file = Readable img perr" "\<not> outputPath_inside cfg e fn"
  shows "process_upload cfg e st file fn =
           (\<lparr>status = 500, body = JObject
               [(''error'', JString ''Failed to process image''),
                (''message'', JString ''Invalid file path'')]\<rparr>, st)"
proof -
  have "try_block cfg e st file fn = Inl (Error ''Invalid file path'', st)"
    using assms by (simp add: try_block_def sharp_metadata_def)
  then show ?thesis
    by (simp add: process_upload_def invalid_path_response)
qed

section \<open>The verdicts of authenticateAPIKey\<close>

text \<open>
  The middleware answers 401 or 403, calls \<open>next()\<close>, or lets the RangeError of
  \<open>crypto.timingSafeEqual\<close> escape.  It compares the lengths in code units and the
  contents in UTF-8 bytes.
\<close>

lemma length_ascii: "length (ascii s) = length s"
  by (simp add: ascii_def)

lemma auth_exact_match:
  "authenticateAPIKey cfg (Some (ascii ''Bearer '' @ apiKey cfg)) = Next"
proof -
  have l: "length (ascii ''Bearer '') = 7" by (simp add: length_ascii)
  have "ascii ''Bearer '' \<noteq> []" by (simp add: ascii_def)
  then show ?thesis
    using l by (simp add: authenticateAPIKey_def startsWith_def substring_def timingSafeEqual_def)
qed

lemma auth_absent: "authenticateAPIKey cfg None = Responded unauthorized"
  by (simp add: authenticateAPIKey_def)

lemma auth_no_bearer:
  "\<not> startsWith h (ascii ''Bearer '') \<Longrightarrow> authenticateAPIKey cfg (Some h) = Responded unauthorized"
  by (simp add: authenticateAPIKey_def)

lemma auth_length_differs:
  "startsWith h (ascii ''Bearer '') \<Longrightarrow> length (substring h 7) \<noteq> length (apiKey cfg) \<Longrightarrow>
   authenticateAPIKey cfg (Some h) = Responded forbidden"
  by (auto simp: authenticateAPIKey_def startsWith_def ascii_def)

lemma auth_verdicts:
  "authenticateAPIKey cfg h = Responded unauthorized \<or>
   authenticateAPIKey cfg h = Responded forbidden \<or>
   authenticateAPIKey cfg h = Next \<or>
   authenticateAPIKey cfg h =
     Threw \<lparr>err_code = Some ''ERR_CRYPTO_TIMING_SAFE_EQUAL_LENGTH'',
            err_message = ''Input buffers must have the same byte length''\<rparr>"
  by (simp add: authenticateAPIKey_def timingSafeEqual_def Let_def split: option.split)

lemma auth_next_iff:
  "authenticateAPIKey cfg (Some h) = Next \<longleftrightarrow>
     startsWith h (ascii ''Bearer '') \<and>
     length (substring h 7) = length (apiKey cfg) \<and>
     Buffer_from (substring h 7) = Buffer_from (apiKey cfg)"
  by (auto simp: authenticateAPIKey_def timingSafeEqual_def startsWith_def ascii_def Let_def)

lemma rejected_request:
  assumes "authenticateAPIKey cfg (authorization req) \<noteq> Next"
  shows "snd (post_upload cfg e st req) = st"
    and "status (fst (post_upload cfg e st req)) \<in> {401, 403, 500}"
  using assms auth_verdicts [of cfg "authorization req"]
  by (auto simp: post_upload_def unauthorized_def forbidden_def global_error_handler_def)

text \<open>
  When the header and the key are ASCII, code units and bytes count alike: the middleware
  answers 401 without the prefix, passes on exactly the token that equals the key, and
  answers 403 otherwise, and a request without the key is answered 401 or 403 and writes
  nothing.
\<close>

lemma ucast_ascii_inj:
  fixes c d :: "16 word"
  assumes "c < 0x80" "d < 0x80" "(ucast c :: 8 word) = ucast d"
  shows "c = d"
proof -
  have c: "unat c < 128" using assms(1) by (simp add: word_less_nat_alt)
  have d: "unat d < 128" using assms(2) by (simp add: word_less_nat_alt)
  have "unat (ucast c :: 8 word) = unat (ucast d :: 8 word)" using assms(3) by simp
  then have "unat c mod 256 = unat d mod 256"
    by (simp add: unsigned_ucast_eq take_bit_eq_mod)
  then have "unat c = unat d" using c d by simp
  then show ?thesis by (simp add: word_unat_eq_iff)
qed

lemma Buffer_from_ascii:
  "\<forall>c \<in> set s. c < 0x80 \<Longrightarrow> Buffer_from s = map ucast s"
  by (induction s rule: Buffer_from.induct) simp_all

lemma map_ucast_ascii_inj:
  "\<forall>c \<in> set s. c < (0x80 :: 16 word) \<Longrightarrow> \<forall>c \<in> set t. c < (0x80 :: 16 word) \<Longrightarrow>
   map (ucast :: 16 word \<Rightarrow> 8 word) s = map ucast t \<Longrightarrow> s = t"
proof (induction s arbitrary: t)
  case Nil
  then show ?case by simp
next
  case (Cons c s)
  then obtain d t' where t: "t = d # t'" by (cases t) auto
  with Cons show ?case by (auto dest: ucast_ascii_inj)
qed

lemma auth_ascii:
  assumes "\<forall>c \<in> set h. c < 0x80" "\<forall>c \<in> set (apiKey cfg). c < 0x80"
  shows "authenticateAPIKey cfg (Some h) =
           (if \<not> startsWith h (ascii ''Bearer '') then Responded unauthorized
            else if substring h 7 = apiKey cfg then Next
            else Responded forbidden)"
proof -
  have tok: "\<forall>c \<in> set (substring h 7). c < 0x80"
    using assms(1) by (auto simp: substring_def dest: in_set_dropD)
  have eq: "Buffer_from (substring h 7) = Buffer_from (apiKey cfg) \<longleftrightarrow> substring h 7 = apiKey cfg"
    using map_ucast_ascii_inj [OF tok assms(2)]
    by (auto simp: Buffer_from_ascii [OF tok] Buffer_from_ascii [OF assms(2)])
  have len: "length (Buffer_from (substring h 7)) = length (substring h 7)"
    "length (Buffer_from (apiKey cfg)) = length (apiKey cfg)"
    by (simp_all add: Buffer_from_ascii [OF tok] Buffer_from_ascii [OF assms(2)])
  show ?thesis
  proof (cases "startsWith h (ascii ''Bearer '')")
    case False
    then show ?thesis by (simp add: authenticateAPIKey_def)
  next
    case True
    then have "h \<noteq> []" by (auto simp: startsWith_def ascii_def)
    with True show ?thesis
      using eq len
      by (auto simp: authenticateAPIKey_def timingSafeEqual_def Let_def)
  qed
qed

lemma ascii_request_rejected:
  assumes "\<forall>c \<in> set (apiKey cfg). c < 0x80"
    and "case authorization req of None \<Rightarrow> True | Some h \<Rightarrow> \<forall>c \<in> set h. c < 0x80"
    and "authorization req \<noteq> Some (ascii ''Bearer '' @ apiKey cfg)"
  shows "status (fst (post_upload cfg e st req)) \<in> {401, 403}"
    and "snd (post_upload cfg e st req) = st"
proof -
  have "authenticateAPIKey cfg (authorization req) = Responded unauthorized \<or>
        authenticateAPIKey cfg (authorization req) = Responded forbidden"
  proof (cases "authorization req")
    case None
    then show ?thesis by (simp add: authenticateAPIKey_def)
  next
    case (Some h)
    with assms(2) have h: "\<forall>c \<in> set h. c < 0x80" by simp
    have "substring h 7 \<noteq> apiKey cfg" if "startsWith h (ascii ''Bearer '')"
    proof
      assume "substring h 7 = apiKey cfg"
      moreover have "h = take 7 h @ drop 7 h" by simp
      moreover have "take 7 h = ascii ''Bearer ''"
        using that by (simp add: startsWith_def length_ascii eval_nat_numeral)
      ultimately have "h = ascii ''Bearer '' @ apiKey cfg"
        by (simp add: substring_def)
      with assms(3) Some show False by simp
    qed
    then show ?thesis
      using Some by (auto simp: auth_ascii [OF h assms(1)])
  qed
  then show "status (fst (post_upload cfg e st req)) \<in> {401, 403}"
    and "snd (post_upload cfg e st req) = st"
    by (auto simp: post_upload_def unauthorized_def forbidden_def)
qed

section \<open>The size limit and the classification of errors\<close>

text \<open>
  The upload is configured with a \<open>fileSize\<close> limit of 10 * 1024 * 1024 bytes.  Whether
  a part has run into the limit is reported by the multipart parser; a part so reported is
  answered 413 before sharp sees it.  An error of sharp whose message contains
  \<open>Input buffer\<close> is answered 400.
\<close>

lemma fileSize_limit_bytes: "fileSize_limit = 10485760"
  by (simp add: fileSize_limit_def)

lemma truncated_part_rejected:
  assumes "fileFilter file = None" "truncated file"
  shows "upload_callback cfg e st (upload_single (File_part file)) =
           (\<lparr>status = 413, body = JObject
               [(''error'', JString ''File too large. Maximum size is 10MB.'')]\<rparr>, st)"
  using assms by (simp add: upload_single_def upload_callback_def)

lemma unreadable_with_input_buffer:
  assumes "buffer file = Unreadable err" "err_code err \<noteq> Some ''ENOSPC''"
    and "includes_str (err_message err) ''Input buffer''"
  shows "process_upload cfg e st file fn =
           (\<lparr>status = 400, body = JObject
               [(''error'', JString ''Invalid or corrupted image file.'')]\<rparr>, st)"
  using assms by (simp add: process_upload_def try_block_def sharp_metadata_def catch_block_def)

section \<open>The stored path and the hexadecimal segment\<close>








text \<open>
  An error of the \<open>try\<close> block that is neither out of space nor an \<open>Input buffer\<close>
  message is answered 500 with its message.
\<close>

lemma unclassified_error_response:
  assumes "try_block cfg e st file (generateSafeFilename (now e) (csprng e)) = Inl (err, left)"
    and "err_code err \<noteq> Some ''ENOSPC''"
    and "\<not> includes_str (err_message err) ''Input buffer''"
  shows "upload_callback cfg e st (Inr (Some file)) =
           (\<lparr>status = 500, body = JObject
               [(''error'', JString ''Failed to process image''),
                (''message'', JString (err_message err))]\<rparr>, left)"
  using assms by (simp add: upload_callback_def process_upload_def catch_block_def)

section \<open>Claims\<close>

text \<open>
  C1, as amended.  For every accepted upload (status 201) the \<open>size\<close> field of the
  response holds the width and height read from the header of the source image, and the
  stored WebP, served under the reported file name, has these dimensions unless the EXIF
  orientation of the source is 5 to 8; then the auto-rotation has exchanged them, and the
  stored image is as wide as the source is high.
\<close>

theorem C1_stored_size:
  assumes "post_upload cfg e st req = (res, st')" and "status res = 201"
  shows "\<exists>file img filename.
           multipart_body req = File_part file \<and> buffer file = Readable img None \<and>
           reported_filename res = Some filename \<and>
           reported_size res = Some (img_width img, img_height img) \<and>
           artifact_size (get_image cfg e st' filename) =
             (if quarter_turn (img_orientation img)
              then Some (img_height img, img_width img)
              else reported_size res)"
proof -
  from accepted_upload [OF assms] obtain upl img where
    "multipart_body req = File_part upl" "buffer upl = Readable img None"
    "reported_filename res = Some (generateSafeFilename (now e) (csprng e))"
    "reported_size res = Some (img_width img, img_height img)"
    "get_image cfg e st' (generateSafeFilename (now e) (csprng e)) =
             Some (Written (webp \<lparr>quality = 80, effort = 4, opt_animated = (img_format img = ''gif'')\<rparr>
                    (rotate_img (img\<lparr>img_pages := (if img_format img = ''gif'' then img_pages img else 1)\<rparr>))))"
    by blast
  then show ?thesis
    by (intro exI [of _ upl] exI [of _ img]
          exI [of _ "generateSafeFilename (now e) (csprng e)"])
       (simp add: artifact_size_def webp_def rotate_img_def)
qed

text \<open>
  An upright PNG of 640 by 480: the response and the stored file agree.
\<close>

theorem C1_stored_size_witness:
  "status (fst (post_upload example_config example_env Map.empty
                  (upload_of valid_header upright_png))) = 201 \<and>
   reported_size (fst (post_upload example_config example_env Map.empty
                  (upload_of valid_header upright_png))) = Some (640, 480) \<and>
   artifact_size (get_image example_config example_env
                    (snd (post_upload example_config example_env Map.empty
                            (upload_of valid_header upright_png)))
                    example_filename) = Some (640, 480)"
proof -
  have run: "post_upload example_config example_env Map.empty (upload_of valid_header upright_png) =
      (fst (post_upload example_config example_env Map.empty (upload_of valid_header upright_png)),
       snd (post_upload example_config example_env Map.empty (upload_of valid_header upright_png)))"
    by simp
  have ok: "status (fst (post_upload example_config example_env Map.empty
                  (upload_of valid_header upright_png))) = 201"
    by (simp add: example_png_upload)
  have name: "reported_filename (fst (post_upload example_config example_env Map.empty
                  (upload_of valid_header upright_png))) = Some example_filename"
    by (simp add: example_png_upload reported_filename_def json_field_def example_filename_def)
  have body: "multipart_body (upload_of valid_header upright_png) = File_part upright_png"
    by (simp add: upload_of_def)
  from C1_stored_size [OF run ok] show ?thesis
    using ok name body
    by (auto simp: upright_png_def quarter_turn_def)
qed

text \<open>
  C1 as stated fails on a JPEG of 4000 by 3000 stored pixels with EXIF orientation 6:
  the response reports 4000 by 3000, the stored WebP is 3000 by 4000.
\<close>

theorem C1_rotated_counterexample:
  "status (fst (post_upload example_config example_env Map.empty
                  (upload_of valid_header rotated_jpeg))) = 201 \<and>
   reported_size (fst (post_upload example_config example_env Map.empty
                  (upload_of valid_header rotated_jpeg))) = Some (4000, 3000) \<and>
   reported_filename (fst (post_upload example_config example_env Map.empty
                  (upload_of valid_header rotated_jpeg))) = Some example_filename \<and>
   artifact_size (get_image example_config example_env
                    (snd (post_upload example_config example_env Map.empty
                            (upload_of valid_header rotated_jpeg)))
                    example_filename) = Some (3000, 4000)"
  by (simp add: example_jpeg_upload reported_size_def reported_filename_def json_field_def
        artifact_size_def get_image_def example_output)
     (simp add: example_filename_def)

text \<open>
  C2, as amended.  For every accepted upload the animated flag of the encoder is set
  exactly when the source format is GIF.  When it is set, the stored WebP has all the
  frames of the source; otherwise it has a single frame, however many frames the source
  has.
\<close>

theorem C2_animation_for_gif:
  assumes "post_upload cfg e st req = (res, st')" and "status res = 201"
  shows "\<exists>file img filename art.
           multipart_body req = File_part file \<and> buffer file = Readable img None \<and>
           reported_filename res = Some filename \<and>
           get_image cfg e st' filename = Some (Written art) \<and>
           opt_animated (art_options art) = (img_format img = ''gif'') \<and>
           art_frames art = (if opt_animated (art_options art) then source_frames file else 1)"
proof -
  from accepted_upload [OF assms] obtain upl img where
    "multipart_body req = File_part upl" "buffer upl = Readable img None"
    "reported_filename res = Some (generateSafeFilename (now e) (csprng e))"
    "get_image cfg e st' (generateSafeFilename (now e) (csprng e)) =
             Some (Written (webp \<lparr>quality = 80, effort = 4, opt_animated = (img_format img = ''gif'')\<rparr>
                    (rotate_img (img\<lparr>img_pages := (if img_format img = ''gif'' then img_pages img else 1)\<rparr>))))"
    by blast
  then show ?thesis
    by (intro exI [of _ upl] exI [of _ img]
          exI [of _ "generateSafeFilename (now e) (csprng e)"]
          exI [of _ "webp \<lparr>quality = 80, effort = 4, opt_animated = (img_format img = ''gif'')\<rparr>
                    (rotate_img (img\<lparr>img_pages := (if img_format img = ''gif'' then img_pages img else 1)\<rparr>))"])
       (simp add: webp_def rotate_img_def source_frames_def)
qed

text \<open>
  A GIF of 12 frames is stored with 12 frames.
\<close>

theorem C2_animation_for_gif_witness:
  "status (fst (post_upload example_config example_env Map.empty
                  (upload_of valid_header animated_gif))) = 201 \<and>
   source_frames animated_gif = 12 \<and>
   artifact_frames (get_image example_config example_env
                      (snd (post_upload example_config example_env Map.empty
                              (upload_of valid_header animated_gif)))
                      example_filename) = Some 12"
proof -
  have run: "post_upload example_config example_env Map.empty (upload_of valid_header animated_gif) =
      (fst (post_upload example_config example_env Map.empty (upload_of valid_header animated_gif)),
       snd (post_upload example_config example_env Map.empty (upload_of valid_header animated_gif)))"
    by simp
  have ok: "status (fst (post_upload example_config example_env Map.empty
                  (upload_of valid_header animated_gif))) = 201"
    by (simp add: example_gif_upload)
  have name: "reported_filename (fst (post_upload example_config example_env Map.empty
                  (upload_of valid_header animated_gif))) = Some example_filename"
    by (simp add: example_gif_upload reported_filename_def json_field_def example_filename_def)
  have body: "multipart_body (upload_of valid_header animated_gif) = File_part animated_gif"
    by (simp add: upload_of_def)
  have frames: "source_frames animated_gif = 12"
    by (simp add: source_frames_def animated_gif_def)
  from C2_animation_for_gif [OF run ok] show ?thesis
    using ok name body frames
    by (auto simp: animated_gif_def artifact_frames_def)
qed

text \<open>
  C2 as stated fails on a WebP of 3 frames: WebP is a multi-frame format, the upload is
  accepted, and the stored file has one frame.
\<close>

theorem C2_animated_webp_counterexample:
  "status (fst (post_upload example_config example_env Map.empty
                  (upload_of valid_header animated_webp))) = 201 \<and>
   source_frames animated_webp = 3 \<and>
   artifact_frames (get_image example_config example_env
                      (snd (post_upload example_config example_env Map.empty
                              (upload_of valid_header animated_webp)))
                      example_filename) = Some 1"
  by (simp add: example_webp_upload artifact_frames_def get_image_def example_output)
     (simp add: source_frames_def animated_webp_def)

text \<open>
  C3.  With an absolute working directory, for every generated file name the path check
  passes, and it passes exactly when the directory component of the output path is the
  resolved upload directory.  For any file name on which the check fails, the request is
  answered with status 500 (\<open>Failed to process image\<close>, \<open>Invalid file path\<close>) and
  nothing is written.
\<close>

theorem C3_path_verification:
  assumes "absolute_path (cwd e)"
  shows "outputPath_inside cfg e (generateSafeFilename t src) \<and>
         (outputPath_inside cfg e (generateSafeFilename t src) \<longleftrightarrow>
            path_dirname (path_resolve (cwd e) [uploadDir cfg, generateSafeFilename t src]) =
            path_resolve (cwd e) [uploadDir cfg]) \<and>
         (\<forall>file fn img perr.
            buffer file = Readable img perr \<and> \<not> outputPath_inside cfg e fn \<longrightarrow>
            process_upload cfg e st file fn =
              (\<lparr>status = 500, body = JObject
                  [(''error'', JString ''Failed to process image''),
                   (''message'', JString ''Invalid file path'')]\<rparr>, st))"
proof -
  have plain: "plain_name (generateSafeFilename t src)"
    by (rule generateSafeFilename_plain)
  have "outputPath_inside cfg e (generateSafeFilename t src)"
    using assms plain by (rule plain_child_inside(1))
  moreover have "path_dirname (path_resolve (cwd e) [uploadDir cfg, generateSafeFilename t src]) =
      path_resolve (cwd e) [uploadDir cfg]"
    using assms plain by (rule plain_child_inside(2))
  ultimately show ?thesis
    using process_upload_outside by blast
qed

text \<open>
  The generated name of the example lies in \<open>/srv/app/uploads\<close>; the name
  \<open>../escape.webp\<close> does not, and is answered 500.
\<close>

theorem C3_path_verification_witness:
  "absolute_path (cwd example_env) \<and>
   outputPath_inside example_config example_env example_filename \<and>
   path_dirname (path_resolve (cwd example_env) [uploadDir example_config, example_filename]) =
     ''/srv/app/uploads'' \<and>
   \<not> outputPath_inside example_config example_env ''../escape.webp'' \<and>
   process_upload example_config example_env Map.empty upright_png ''../escape.webp'' =
     (\<lparr>status = 500, body = JObject
         [(''error'', JString ''Failed to process image''),
          (''message'', JString ''Invalid file path'')]\<rparr>, Map.empty)"
proof -
  have abs: "absolute_path (cwd example_env)"
    by (simp add: absolute_path_def example_env_def)
  have out: "\<not> outputPath_inside example_config example_env ''../escape.webp''"
    by (simp add: outputPath_inside_def path_resolve_def normalizeString_def norm_step_def
          startsWith_def example_env_def example_config_def)
  have buf: "buffer upright_png =
      Readable \<lparr>img_format = ''png'', img_width = 640, img_height = 480,
                 img_orientation = None, img_pages = 1\<rparr> None"
    by (simp add: upright_png_def)
  from C3_path_verification [OF abs, of example_config "now example_env" "csprng example_env" Map.empty]
  show ?thesis
    using abs out buf by (auto simp: example_filename_eval example_root)
qed

text \<open>
  C4.  The configured key has 32 ASCII characters.  The token of \<open>latin1_header\<close> has
  32 code units too, the last one U+00E9, so the length guard lets it pass; its buffer has
  33 bytes, \<open>crypto.timingSafeEqual\<close> throws its RangeError, and the global error handler
  answers 500 where a mismatch is to yield 403.
\<close>

theorem C4_latin1_token_throws:
  "startup_ok example_config \<and>
   authenticateAPIKey example_config latin1_header =
     Threw \<lparr>err_code = Some ''ERR_CRYPTO_TIMING_SAFE_EQUAL_LENGTH'',
            err_message = ''Input buffers must have the same byte length''\<rparr> \<and>
   status (global_error_handler
             \<lparr>err_code = Some ''ERR_CRYPTO_TIMING_SAFE_EQUAL_LENGTH'',
              err_message = ''Input buffers must have the same byte length''\<rparr>) = 500"
  by (simp add: startup_ok_def authenticateAPIKey_def example_config_def latin1_header_def
        ascii_def startsWith_def substring_def timingSafeEqual_def utf8_2_def
        global_error_handler_def)

text \<open>
  C5.  The request that carries \<open>latin1_header\<close>, whose token is not the configured
  key, is answered 500, which is neither 401 nor 403; the storage is unchanged.
\<close>

theorem C5_latin1_token_status:
  "post_upload example_config example_env Map.empty (upload_of latin1_header upright_png) =
     (\<lparr>status = 500, body = JObject [(''error'', JString ''Internal server error'')]\<rparr>,
      Map.empty)"
proof -
  have "authenticateAPIKey example_config latin1_header =
     Threw \<lparr>err_code = Some ''ERR_CRYPTO_TIMING_SAFE_EQUAL_LENGTH'',
            err_message = ''Input buffers must have the same byte length''\<rparr>"
    by (simp add: authenticateAPIKey_def example_config_def latin1_header_def
        ascii_def startsWith_def substring_def timingSafeEqual_def utf8_2_def)
  then show ?thesis
    by (simp add: post_upload_def upload_of_def global_error_handler_def)
qed

text \<open>
  C7.  An authenticated upload of a file part without content, under the whitelisted type
  \<open>image/png\<close>: sharp refuses the buffer with \<open>Input Buffer is empty\<close>, which does not
  contain \<open>Input buffer\<close>, and the answer is 500 where an undecodable image is to be
  answered 400.
\<close>

theorem C7_empty_file_status:
  "post_upload example_config example_env Map.empty (upload_of valid_header empty_file) =
     (\<lparr>status = 500, body = JObject
        [(''error'', JString ''Failed to process image''),
         (''message'', JString ''Input Buffer is empty'')]\<rparr>, Map.empty)"
proof -
  have tb: "try_block example_config example_env Map.empty empty_file example_filename =
      Inl (Error ''Input Buffer is empty'', Map.empty)"
    by (simp add: try_block_def empty_file_def sharp_metadata_def)
  have cb: "catch_block (Error ''Input Buffer is empty'') =
      \<lparr>status = 500, body = JObject
        [(''error'', JString ''Failed to process image''),
         (''message'', JString ''Input Buffer is empty'')]\<rparr>"
    by (simp add: catch_block_def Error_def startsWith_def)
  have ff: "fileFilter empty_file = None" "\<not> truncated empty_file"
    by (simp_all add: fileFilter_def empty_file_def allowedMimes_def)
  show ?thesis
    by (simp add: post_upload_def upload_of_def example_auth upload_single_def ff
          upload_callback_def process_upload_def example_filename_eval tb cb)
qed



text \<open>
  C9.  Two requests with the same Authorization header that \<open>authenticateAPIKey\<close>
  rejects under the same configuration get the same response, whatever the clock, the
  random bytes, the bodies and the stored files are, and neither changes the storage.
\<close>

theorem C9_rejection_deterministic:
  assumes "authenticateAPIKey cfg (authorization req1) \<noteq> Next"
    and "authorization req2 = authorization req1"
  shows "status (fst (post_upload cfg e1 st1 req1)) = status (fst (post_upload cfg e2 st2 req2)) \<and>
         fst (post_upload cfg e1 st1 req1) = fst (post_upload cfg e2 st2 req2) \<and>
         snd (post_upload cfg e1 st1 req1) = st1 \<and>
         snd (post_upload cfg e2 st2 req2) = st2"
  using assms
  by (cases "authenticateAPIKey cfg (authorization req1)") (simp_all add: post_upload_def)

text \<open>
  A wrong key of the right length is answered 403 both times.
\<close>

theorem C9_rejection_deterministic_witness:
  "authenticateAPIKey example_config wrong_header \<noteq> Next \<and>
   status (fst (post_upload example_config example_env Map.empty
                  (upload_of wrong_header upright_png))) = 403 \<and>
   status (fst (post_upload example_config (example_env\<lparr>now := 1709020800001\<rparr>)
                  [''/srv/app/uploads/old.webp'' \<mapsto>
                     Written \<lparr>art_width = 1, art_height = 1, art_frames = 1,
                      art_options = \<lparr>quality = 80, effort = 4, opt_animated = False\<rparr>\<rparr>]
                  (upload_of wrong_header animated_gif))) = 403 \<and>
   snd (post_upload example_config example_env Map.empty
          (upload_of wrong_header upright_png)) = Map.empty"
proof -
  have rej: "authenticateAPIKey example_config
               (authorization (upload_of wrong_header upright_png)) \<noteq> Next"
    by (simp add: upload_of_def example_wrong_header)
  have same: "authorization (upload_of wrong_header animated_gif) =
              authorization (upload_of wrong_header upright_png)"
    by (simp add: upload_of_def)
  have first: "status (fst (post_upload example_config example_env Map.empty
                  (upload_of wrong_header upright_png))) = 403"
    by (simp add: post_upload_def upload_of_def example_wrong_header forbidden_def)
  from C9_rejection_deterministic [OF rej same, of example_env Map.empty
      "example_env\<lparr>now := 1709020800001\<rparr>"
      "[''/srv/app/uploads/old.webp'' \<mapsto>
                     Written \<lparr>art_width = 1, art_height = 1, art_frames = 1,
                      art_options = \<lparr>quality = 80, effort = 4, opt_animated = False\<rparr>\<rparr>]"]
  show ?thesis
    using first by (simp add: example_wrong_header)
qed

text \<open>
  C10.  Whenever the upload callback answers 500, an error was thrown inside the
  \<open>try\<close> block, one that is neither out of space nor an \<open>Input buffer\<close> message, and
  the body of the response is the fixed text \<open>Failed to process image\<close> under \<open>error\<close>
  and the message of that error, unchanged, under \<open>message\<close>.  The storage is as the
  failed \<open>try\<close> block left it.
\<close>

theorem C10_processing_error_message:
  assumes "upload_callback cfg e st parsed = (res, st')" and "status res = 500"
  shows "\<exists>file err left.
           parsed = Inr (Some file) \<and>
           try_block cfg e st file (generateSafeFilename (now e) (csprng e)) = Inl (err, left) \<and>
           err_code err \<noteq> Some ''ENOSPC'' \<and>
           \<not> includes_str (err_message err) ''Input buffer'' \<and>
           body res = JObject [(''error'', JString ''Failed to process image''),
                               (''message'', JString (err_message err))] \<and>
           st' = left"
proof (cases parsed)
  case (Inl uerr)
  with assms show ?thesis
    by (cases uerr) (auto simp: upload_callback_def split: if_splits)
next
  case (Inr fo)
  show ?thesis
  proof (cases fo)
    case None
    with Inr assms show ?thesis by (auto simp: upload_callback_def)
  next
    case (Some upl)
    show ?thesis
    proof (cases "try_block cfg e st upl (generateSafeFilename (now e) (csprng e))")
      case (Inl failure)
      obtain err left where f: "failure = (err, left)" by (cases failure)
      with Inl Inr Some assms have r: "res = catch_block err" "st' = left"
        by (auto simp: upload_callback_def process_upload_def)
      with assms(2) have "err_code err \<noteq> Some ''ENOSPC''"
        "\<not> includes_str (err_message err) ''Input buffer''"
        "body res = JObject [(''error'', JString ''Failed to process image''),
                               (''message'', JString (err_message err))]"
        by (auto simp: catch_block_def split: if_splits)
      with Inl f Inr Some r show ?thesis by blast
    next
      case (Inr ok)
      obtain r s where ok: "ok = (r, s)" by (cases ok)
      from try_block_Inr [OF Inr [unfolded ok]] have "status r = 201" by auto
      moreover from \<open>parsed = Inr fo\<close> Some Inr ok assms(1) have "res = r"
        by (simp add: upload_callback_def process_upload_def)
      ultimately show ?thesis using assms(2) by simp
    qed
  qed
qed

text \<open>
  A JPEG cut off after its header is answered with the decoder's message; the file
  that the failed \<open>toFile\<close> created stays under the generated name.
\<close>

theorem C10_processing_error_message_witness:
  "status (fst (upload_callback example_config example_env Map.empty
                  (Inr (Some cut_off_jpeg)))) = 500 \<and>
   try_block example_config example_env Map.empty cut_off_jpeg example_filename =
     Inl (Error ''VipsJpeg: Premature end of input file'',
          [''/srv/app/uploads/1709020800000-031425364758697a.webp'' \<mapsto> Partial]) \<and>
   body (fst (upload_callback example_config example_env Map.empty (Inr (Some cut_off_jpeg)))) =
     JObject [(''error'', JString ''Failed to process image''),
              (''message'', JString ''VipsJpeg: Premature end of input file'')] \<and>
   snd (upload_callback example_config example_env Map.empty (Inr (Some cut_off_jpeg)))
     ''/srv/app/uploads/1709020800000-031425364758697a.webp'' = Some Partial"
proof -
  have run: "upload_callback example_config example_env Map.empty (Inr (Some cut_off_jpeg)) =
      (fst (upload_callback example_config example_env Map.empty (Inr (Some cut_off_jpeg))),
       snd (upload_callback example_config example_env Map.empty (Inr (Some cut_off_jpeg))))"
    by simp
  have ok: "status (fst (upload_callback example_config example_env Map.empty
                  (Inr (Some cut_off_jpeg)))) = 500"
    by (simp add: example_cut_off_upload)
  from C10_processing_error_message [OF run ok] obtain err left where
    tb: "try_block example_config example_env Map.empty cut_off_jpeg
           (generateSafeFilename (now example_env) (csprng example_env)) = Inl (err, left)"
    and msg: "body (fst (upload_callback example_config example_env Map.empty
                           (Inr (Some cut_off_jpeg)))) =
              JObject [(''error'', JString ''Failed to process image''),
                       (''message'', JString (err_message err))]"
    and left: "snd (upload_callback example_config example_env Map.empty
                      (Inr (Some cut_off_jpeg))) = left"
    by auto
  from tb have "err = Error ''VipsJpeg: Premature end of input file''"
    and "left = [''/srv/app/uploads/1709020800000-031425364758697a.webp'' \<mapsto> Partial]"
    by (simp_all add: example_filename_eval example_cut_off_try)
  with ok msg left show ?thesis
    by (simp add: example_cut_off_try Error_def)
qed

end
